theory Spec2Isabelle
  imports Complex_Main "HOL-Library.Word" "HOL-Library.Char_ord" "HOL-Library.List_Lexorder"
    "HOL-Library.Multiset" "HOL-Library.AList"
begin

unbundle bit_operations_syntax

section \<open>The result cache of \<open>src/cache/cache_manager.py\<close>\<close>

text \<open>
  The module memoises data-fetch functions in two tiers: the process-wide dictionary
  \<open>_memory_cache\<close> and one pickle file per key under \<open>CACHE_DIR\<close>. This theory embeds
  \<open>get_cache_key\<close>, the \<open>wrapper\<close> built by \<open>cache_result\<close>, \<open>clear_cache\<close> and
  \<open>clear_expired_cache\<close>, together with the library functions they rest on
  (\<open>hashlib.md5\<close>, \<open>str\<close>, \<open>DataFrame.to_dict\<close>).
\<close>

subsection \<open>MD5 (\<open>hashlib.md5(...).hexdigest()\<close>, RFC 1321)\<close>

type_synonym u32 = "32 word"
type_synonym byte = "8 word"

definition md5_K :: "u32 list" where
  "md5_K =
    [0xd76aa478, 0xe8c7b756, 0x242070db, 0xc1bdceee, 0xf57c0faf, 0x4787c62a, 0xa8304613, 0xfd469501,
     0x698098d8, 0x8b44f7af, 0xffff5bb1, 0x895cd7be, 0x6b901122, 0xfd987193, 0xa679438e, 0x49b40821,
     0xf61e2562, 0xc040b340, 0x265e5a51, 0xe9b6c7aa, 0xd62f105d, 0x02441453, 0xd8a1e681, 0xe7d3fbc8,
     0x21e1cde6, 0xc33707d6, 0xf4d50d87, 0x455a14ed, 0xa9e3e905, 0xfcefa3f8, 0x676f02d9, 0x8d2a4c8a,
     0xfffa3942, 0x8771f681, 0x6d9d6122, 0xfde5380c, 0xa4beea44, 0x4bdecfa9, 0xf6bb4b60, 0xbebfbc70,
     0x289b7ec6, 0xeaa127fa, 0xd4ef3085, 0x04881d05, 0xd9d4d039, 0xe6db99e5, 0x1fa27cf8, 0xc4ac5665,
     0xf4292244, 0x432aff97, 0xab9423a7, 0xfc93a039, 0x655b59c3, 0x8f0ccc92, 0xffeff47d, 0x85845dd1,
     0x6fa87e4f, 0xfe2ce6e0, 0xa3014314, 0x4e0811a1, 0xf7537e82, 0xbd3af235, 0x2ad7d2bb, 0xeb86d391]"

definition md5_S :: "nat list" where
  "md5_S =
    [7, 12, 17, 22, 7, 12, 17, 22, 7, 12, 17, 22, 7, 12, 17, 22,
     5, 9, 14, 20, 5, 9, 14, 20, 5, 9, 14, 20, 5, 9, 14, 20,
     4, 11, 16, 23, 4, 11, 16, 23, 4, 11, 16, 23, 4, 11, 16, 23,
     6, 10, 15, 21, 6, 10, 15, 21, 6, 10, 15, 21, 6, 10, 15, 21]"

definition rotl32 :: "u32 \<Rightarrow> nat \<Rightarrow> u32" where
  "rotl32 x n = push_bit n x OR drop_bit (32 - n) x"

text \<open>One of the 64 steps on the working registers, for the sixteen message words \<open>M\<close>.\<close>

definition md5_round ::
  "u32 list \<Rightarrow> nat \<Rightarrow> u32 \<times> u32 \<times> u32 \<times> u32 \<Rightarrow> u32 \<times> u32 \<times> u32 \<times> u32" where
  "md5_round M i st = (case st of (a, b, c, d) \<Rightarrow>
     let (f, g) =
           (if i < 16 then ((b AND c) OR (NOT b AND d), i)
            else if i < 32 then ((d AND b) OR (NOT d AND c), (5 * i + 1) mod 16)
            else if i < 48 then (b XOR c XOR d, (3 * i + 5) mod 16)
            else (c XOR (b OR NOT d), (7 * i) mod 16));
         f' = f + a + md5_K ! i + M ! g
     in (d, b + rotl32 f' (md5_S ! i), b, c))"

fun le_word :: "byte list \<Rightarrow> u32" where
  "le_word [] = 0"
| "le_word (b # bs) = ucast b OR push_bit 8 (le_word bs)"

function chunks :: "nat \<Rightarrow> 'a list \<Rightarrow> 'a list list" where
  "chunks n xs = (if n = 0 \<or> xs = [] then [] else take n xs # chunks n (drop n xs))"
  by pat_completeness auto
termination
  by (relation "measure (\<lambda>(n, xs). length xs)") auto

declare chunks.simps [simp del]

definition md5_block :: "u32 \<times> u32 \<times> u32 \<times> u32 \<Rightarrow> byte list \<Rightarrow> u32 \<times> u32 \<times> u32 \<times> u32" where
  "md5_block st blk = (case st of (a0, b0, c0, d0) \<Rightarrow>
     case foldl (\<lambda>s i. md5_round (map le_word (chunks 4 blk)) i s) st [0..<64] of
       (a, b, c, d) \<Rightarrow> (a0 + a, b0 + b, c0 + c, d0 + d))"

definition le_bytes :: "nat \<Rightarrow> 'a::len word \<Rightarrow> byte list" where
  "le_bytes n x = map (\<lambda>i. ucast (drop_bit (8 * i) x)) [0..<n]"

text \<open>Padding: a \<open>0x80\<close> byte, zeros up to 56 modulo 64, the bit length in 64 bits.\<close>

definition md5_pad :: "byte list \<Rightarrow> byte list" where
  "md5_pad msg = msg @ [0x80] @ replicate ((119 - length msg mod 64) mod 64) 0
                   @ le_bytes 8 (8 * of_nat (length msg) :: 64 word)"

definition md5_digest :: "byte list \<Rightarrow> byte list" where
  "md5_digest msg =
     (case foldl md5_block (0x67452301, 0xefcdab89, 0x98badcfe, 0x10325476)
             (chunks 64 (md5_pad msg)) of
        (a, b, c, d) \<Rightarrow> concat (map (le_bytes 4) [a, b, c, d]))"

definition hex_digit :: "nat \<Rightarrow> char" where
  "hex_digit n = ''0123456789abcdef'' ! n"

definition hex_byte :: "byte \<Rightarrow> string" where
  "hex_byte b = [hex_digit (unat b div 16), hex_digit (unat b mod 16)]"

definition md5_hexdigest :: "byte list \<Rightarrow> string" where
  "md5_hexdigest msg = concat (map hex_byte (md5_digest msg))"

text \<open>
  \<open>str.encode()\<close>: a \<open>string\<close> here is the text already in UTF-8, one \<open>char\<close> per byte,
  so encoding reads each character as its byte.
\<close>

definition encode :: "string \<Rightarrow> byte list" where
  "encode s = map (\<lambda>c. of_nat (of_char c)) s"

subsection \<open>Arguments and their \<open>str\<close> rendering\<close>

text \<open>
  The wrapped functions of the application take ticker symbols and period strings. The
  arguments modelled are the primitive ones whose \<open>str\<close> is the same on every call:
  strings, integers, booleans and \<open>None\<close>.
\<close>

datatype pyarg = PyStr string | PyInt int | PyBool bool | PyNone

definition digit_char :: "nat \<Rightarrow> char" where
  "digit_char n = ''0123456789'' ! n"

function show_nat :: "nat \<Rightarrow> string" where
  "show_nat n = (if n < 10 then [digit_char n] else show_nat (n div 10) @ [digit_char (n mod 10)])"
  by pat_completeness auto
termination
  by (relation "measure id") auto

declare show_nat.simps [simp del]

definition show_int :: "int \<Rightarrow> string" where
  "show_int i = (if i < 0 then CHR ''-'' # show_nat (nat (- i)) else show_nat (nat i))"

fun py_str :: "pyarg \<Rightarrow> string" where
  "py_str (PyStr s) = s"
| "py_str (PyInt i) = show_int i"
| "py_str (PyBool b) = (if b then ''True'' else ''False'')"
| "py_str PyNone = ''None''"

text \<open>\<open>sep.join(parts)\<close>.\<close>

fun join :: "string \<Rightarrow> string list \<Rightarrow> string" where
  "join sep [] = []"
| "join sep [x] = x"
| "join sep (x # y # ys) = x @ sep @ join sep (y # ys)"

subsection \<open>\<open>get_cache_key\<close>\<close>

text \<open>
  \<open>**kwargs\<close> is a dictionary in call order: an association list whose keys are
  distinct. \<open>kwarg_part kwargs k\<close> is the f-string \<open>f"{k}={kwargs[k]}"\<close>; \<open>k\<close> ranges
  over the keys of \<open>kwargs\<close>, so the lookup succeeds. \<open>key_str\<close> is the joined string
  of lines 43 to 54.
\<close>

datatype py_exception = PyException string

type_synonym kwargs = "(string \<times> pyarg) list"

definition kwarg_part :: "kwargs \<Rightarrow> string \<Rightarrow> string" where
  "kwarg_part kwargs k = k @ ''='' @ py_str (the (map_of kwargs k))"

definition key_parts :: "string \<Rightarrow> pyarg list \<Rightarrow> kwargs \<Rightarrow> string list" where
  "key_parts func_name args kwargs =
     [func_name] @ map py_str args @ map (kwarg_part kwargs) (sort (map fst kwargs))"

definition key_str :: "string \<Rightarrow> pyarg list \<Rightarrow> kwargs \<Rightarrow> string" where
  "key_str func_name args kwargs = join ''_'' (key_parts func_name args kwargs)"

text \<open>
  The call \<open>get_cache_key(func_name, *args, **kwargs)\<close>. The first parameter is named
  \<open>func_name\<close>, so a keyword argument of that name is a second value for it and the call
  raises \<open>TypeError\<close> before the body runs. Otherwise the body returns the MD5 hex
  digest of the joined string.
\<close>

definition get_cache_key :: "string \<Rightarrow> pyarg list \<Rightarrow> kwargs \<Rightarrow> py_exception + string" where
  "get_cache_key func_name args kwargs =
     (if ''func_name'' \<in> set (map fst kwargs) then Inl (PyException ''TypeError'')
      else Inr (md5_hexdigest (encode (key_str func_name args kwargs))))"

subsection \<open>Results, cache entries and the two tiers\<close>

text \<open>
  A wrapped function returns a \<open>pandas.DataFrame\<close> (\<open>fetch_stock_data\<close>) or a plain value
  such as a dictionary (\<open>fetch_company_info\<close>, \<open>fetch_financials\<close>). A data frame has an
  index and, per column, a name, a dtype and one cell per index label.
  \<open>DataFrame.to_dict()\<close> gives \<open>{column: {index label: cell}}\<close>, without the dtypes.
  Both levels are dictionaries built pair by pair (\<open>py_dict\<close>): a repeated column name
  or index label keeps its first position and its last value.
\<close>

datatype cell = CellInt int | CellFloat real | CellStr string

datatype dtype = Int64 | Float64 | Object

datatype pyval =
    Scalar cell
  | Dict "(pyval \<times> pyval) list"
  | DataFrame "cell list" "(string \<times> dtype \<times> cell list) list"

definition py_dict :: "('k \<times> 'v) list \<Rightarrow> ('k \<times> 'v) list" where
  "py_dict pairs = foldl (\<lambda>d (k, v). AList.update k v d) [] pairs"

definition to_dict :: "cell list \<Rightarrow> (string \<times> dtype \<times> cell list) list \<Rightarrow> pyval" where
  "to_dict index columns =
     Dict (py_dict (map (\<lambda>(name, dt, cells).
                  (Scalar (CellStr name),
                   Dict (py_dict (zip (map Scalar index) (map Scalar cells)))))
            columns))"

text \<open>
  A cache entry is the dictionary \<open>{'result': ..., 'timestamp': ...}\<close>; the copy pickled
  for a data frame also has the key \<open>'type'\<close>. Timestamps are readings of \<open>time.time()\<close>,
  taken as real numbers. The wrapper keeps what it loads from a file without looking at
  its keys, so the record also stands for a loaded dictionary that has a timestamp and
  no \<open>'result'\<close>: then \<open>result\<close> is \<open>None\<close>, and \<open>cache_entry['result']\<close> raises
  \<open>KeyError\<close>.
\<close>

record cache_entry =
  result :: "pyval option"
  timestamp :: real
  type_tag :: "string option"

definition subscript_result :: "cache_entry \<Rightarrow> py_exception + pyval" where
  "subscript_result cache_entry =
     (case result cache_entry of
        None \<Rightarrow> Inl (PyException ''KeyError'')
      | Some r \<Rightarrow> Inr r)"

text \<open>
  A file \<open>CACHE_DIR / f"{cache_key}.pkl"\<close>: the dictionary \<open>pickle.load\<close> gives on it
  (\<open>Pickled\<close>), or \<open>Unreadable\<close> when \<open>open\<close> or \<open>pickle.load\<close> raises or the loaded
  object has no number under \<open>'timestamp'\<close>, so that line 89 raises (truncated, corrupt,
  no permission, another kind of object): in each of these cases nothing has been stored
  when the exception is caught. With it, the modification time \<open>os.path.getmtime\<close>
  reports. Pickling and loading a value gives the value back.
\<close>

datatype file_content = Pickled cache_entry | Unreadable

record cache_file =
  content :: file_content
  mtime :: real

text \<open>
  The state the module works on: \<open>_memory_cache\<close> (a dictionary, in insertion order), the
  files of \<open>CACHE_DIR\<close> by key, and the number of calls made so far to wrapped functions.
\<close>

record world =
  memory_cache :: "(string \<times> cache_entry) list"
  cache_dir :: "string \<rightharpoonup> cache_file"
  func_calls :: nat

text \<open>
  What the outside answers during one call of \<open>wrapper\<close>: the three readings of
  \<open>time.time()\<close> (at the memory check, at the file check, when the new entry is made),
  the exception of \<open>cache_file.exists()\<close> if it raises one (\<open>Path.exists\<close> passes on every
  \<open>OSError\<close> other than a missing path, such as \<open>PermissionError\<close> on a directory that
  may not be searched), how the write of the file ends, and the modification time a
  written file gets.
  \<open>Open_failed\<close>: \<open>open(cache_file, 'wb')\<close> raises and the file is untouched;
  \<open>Dump_failed\<close>: the file was opened, hence truncated, and \<open>to_dict\<close> or
  \<open>pickle.dump\<close> raises.
\<close>

datatype write_outcome = Written | Open_failed | Dump_failed

record call_env =
  time_memory :: real
  time_file :: real
  time_store :: real
  exists_raises :: "py_exception option"
  file_write :: write_outcome
  file_mtime :: real

definition CACHE_EXPIRY :: int where
  "CACHE_EXPIRY = 3600"

subsection \<open>\<open>cache_result(expires)(func)\<close>: the \<open>wrapper\<close>\<close>

text \<open>The memory check: the key is in \<open>_memory_cache\<close> and its entry is still valid.\<close>

definition memory_lookup ::
  "int \<Rightarrow> real \<Rightarrow> (string \<times> cache_entry) list \<Rightarrow> string \<Rightarrow> cache_entry option" where
  "memory_lookup expires now mem cache_key =
     (case map_of mem cache_key of
        None \<Rightarrow> None
      | Some cache_entry \<Rightarrow>
          if now - timestamp cache_entry < real_of_int expires then Some cache_entry else None)"

text \<open>
  The file check up to line 89: the file exists, loads, and the timestamp of what was
  loaded is still valid. An exception up to there is logged and the check falls through.
\<close>

definition file_lookup ::
  "int \<Rightarrow> real \<Rightarrow> (string \<rightharpoonup> cache_file) \<Rightarrow> string \<Rightarrow> cache_entry option" where
  "file_lookup expires now dir cache_key =
     (case dir cache_key of
        None \<Rightarrow> None
      | Some f \<Rightarrow>
          (case content f of
             Unreadable \<Rightarrow> None
           | Pickled cache_entry \<Rightarrow>
               if now - timestamp cache_entry < real_of_int expires then Some cache_entry
               else None))"

text \<open>
  What is pickled: for a data frame a copy of the entry with the result replaced by
  \<open>result.to_dict()\<close> and \<open>'type'\<close> set to \<open>'dataframe'\<close>, else the entry itself.
\<close>

definition pickled_entry :: "cache_entry \<Rightarrow> cache_entry" where
  "pickled_entry cache_entry =
     (case result cache_entry of
        Some (DataFrame index columns) \<Rightarrow>
          cache_entry\<lparr>result := Some (to_dict index columns), type_tag := Some ''dataframe''\<rparr>
      | _ \<Rightarrow> cache_entry)"

definition write_file ::
  "call_env \<Rightarrow> string \<Rightarrow> cache_entry \<Rightarrow> (string \<rightharpoonup> cache_file) \<Rightarrow> (string \<rightharpoonup> cache_file)" where
  "write_file env cache_key cache_entry dir =
     (case file_write env of
        Open_failed \<Rightarrow> dir
      | Dump_failed \<Rightarrow> dir(cache_key \<mapsto> \<lparr>content = Unreadable, mtime = file_mtime env\<rparr>)
      | Written \<Rightarrow>
          dir(cache_key \<mapsto> \<lparr>content = Pickled (pickled_entry cache_entry),
                              mtime = file_mtime env\<rparr>))"

text \<open>
  Lines 97 to 125, the cache miss. \<open>func args kwargs\<close> is what the wrapped function does
  on this call: it raises (\<open>Inl\<close>) or returns (\<open>Inr\<close>). Its exception leaves the
  wrapper at once; its result is put into the memory, then written to the file.
\<close>

definition call_and_store ::
  "(pyarg list \<Rightarrow> kwargs \<Rightarrow> py_exception + pyval) \<Rightarrow> call_env \<Rightarrow> string
     \<Rightarrow> pyarg list \<Rightarrow> kwargs \<Rightarrow> world \<Rightarrow> (py_exception + pyval) \<times> world" where
  "call_and_store func env cache_key args kwargs s =
     (case func args kwargs of
        Inl e \<Rightarrow> (Inl e, s\<lparr>func_calls := func_calls s + 1\<rparr>)
      | Inr r \<Rightarrow>
          let cache_entry = \<lparr>result = Some r, timestamp = time_store env, type_tag = None\<rparr>
          in (Inr r,
              s\<lparr>memory_cache := AList.update cache_key cache_entry (memory_cache s),
                cache_dir := write_file env cache_key cache_entry (cache_dir s),
                func_calls := func_calls s + 1\<rparr>))"

text \<open>
  The wrapper returns or raises the same way, with the state it leaves. Outside the two
  \<open>try\<close> blocks are the key derivation (line 71), the memory check with its
  \<open>return cache_entry['result']\<close> (lines 74 to 79) and \<open>cache_file.exists()\<close> (line 83).
  In the file check, line 91 stores what was loaded before line 93 reads its
  \<open>'result'\<close>; the \<open>KeyError\<close> of line 93 is caught and the call goes on as a miss.
\<close>

definition wrapper ::
  "int \<Rightarrow> string \<Rightarrow> (pyarg list \<Rightarrow> kwargs \<Rightarrow> py_exception + pyval) \<Rightarrow> call_env
     \<Rightarrow> pyarg list \<Rightarrow> kwargs \<Rightarrow> world \<Rightarrow> (py_exception + pyval) \<times> world" where
  "wrapper expires func_name func env args kwargs s =
     (case get_cache_key func_name args kwargs of
        Inl e \<Rightarrow> (Inl e, s)
      | Inr cache_key \<Rightarrow>
          (case memory_lookup expires (time_memory env) (memory_cache s) cache_key of
             Some cache_entry \<Rightarrow> (subscript_result cache_entry, s)
           | None \<Rightarrow>
               (case exists_raises env of
                  Some e \<Rightarrow> (Inl e, s)
                | None \<Rightarrow>
                    (case file_lookup expires (time_file env) (cache_dir s) cache_key of
                       Some cache_entry \<Rightarrow>
                         (let s' = s\<lparr>memory_cache :=
                                      AList.update cache_key cache_entry (memory_cache s)\<rparr>
                          in case result cache_entry of
                               Some r \<Rightarrow> (Inr r, s')
                             | None \<Rightarrow> call_and_store func env cache_key args kwargs s')
                     | None \<Rightarrow> call_and_store func env cache_key args kwargs s))))"

subsection \<open>\<open>clear_cache\<close> and \<open>clear_expired_cache\<close>\<close>

text \<open>
  \<open>remove_fails k\<close>: handling the file of key \<open>k\<close> raises (\<open>os.remove\<close>, or
  \<open>os.path.getmtime\<close> in the sweep); the exception is logged and the file stays.
\<close>

definition clear_cache :: "(string \<Rightarrow> bool) \<Rightarrow> world \<Rightarrow> world" where
  "clear_cache remove_fails s =
     s\<lparr>memory_cache := [],
       cache_dir := (\<lambda>k. if remove_fails k then cache_dir s k else None)\<rparr>"

definition keys_to_remove :: "int \<Rightarrow> real \<Rightarrow> (string \<times> cache_entry) list \<Rightarrow> string list" where
  "keys_to_remove expires current_time mem =
     map fst (filter (\<lambda>(key, entry). current_time - timestamp entry \<ge> real_of_int expires) mem)"

text \<open>
  The sweep returns \<open>None\<close>; the length of \<open>keys_to_remove\<close> only goes to the log. Files
  are judged by their modification time.
\<close>

definition clear_expired_cache :: "int \<Rightarrow> real \<Rightarrow> (string \<Rightarrow> bool) \<Rightarrow> world \<Rightarrow> world" where
  "clear_expired_cache expires current_time remove_fails s =
     s\<lparr>memory_cache :=
         fold AList.delete (keys_to_remove expires current_time (memory_cache s)) (memory_cache s),
       cache_dir :=
         (\<lambda>k. case cache_dir s k of
                None \<Rightarrow> None
              | Some f \<Rightarrow>
                  if current_time - mtime f \<ge> real_of_int expires \<and> \<not> remove_fails k then None
                  else Some f)\<rparr>"

subsection \<open>Concrete scenarios\<close>

text \<open>
  Wrapped functions that return a fixed value or raise a fixed exception; an empty cache;
  a call environment with one clock reading \<open>t\<close> throughout and an existence check
  that returns; a process restart, which
  loses \<open>_memory_cache\<close> and keeps the files; file systems on which removal never, or
  always, fails.
\<close>

definition returning :: "pyval \<Rightarrow> pyarg list \<Rightarrow> kwargs \<Rightarrow> py_exception + pyval" where
  "returning v args kwargs = Inr v"

definition raising :: "py_exception \<Rightarrow> pyarg list \<Rightarrow> kwargs \<Rightarrow> py_exception + pyval" where
  "raising e args kwargs = Inl e"

definition empty_world :: world where
  "empty_world = \<lparr>memory_cache = [], cache_dir = Map.empty, func_calls = 0\<rparr>"

definition env_at :: "real \<Rightarrow> write_outcome \<Rightarrow> call_env" where
  "env_at t w =
     \<lparr>time_memory = t, time_file = t, time_store = t, exists_raises = None,
      file_write = w, file_mtime = t\<rparr>"

definition restart :: "world \<Rightarrow> world" where
  "restart s = s\<lparr>memory_cache := []\<rparr>"

definition never_fails :: "string \<Rightarrow> bool" where
  "never_fails k = False"

definition always_fails :: "string \<Rightarrow> bool" where
  "always_fails k = True"

text \<open>A one-row price table, and the state after \<open>fetch_stock_data("AAPL")\<close> at time 0.\<close>

definition prices :: pyval where
  "prices = DataFrame [CellStr ''2024-01-02'']
              [(''Close'', Float64, [CellFloat 185]), (''Volume'', Int64, [CellInt 1000])]"

definition prices_as_dict :: pyval where
  "prices_as_dict =
     Dict [(Scalar (CellStr ''Close''), Dict [(Scalar (CellStr ''2024-01-02''), Scalar (CellFloat 185))]),
           (Scalar (CellStr ''Volume''), Dict [(Scalar (CellStr ''2024-01-02''), Scalar (CellInt 1000))])]"

definition aapl_key :: string where
  "aapl_key = md5_hexdigest (encode (key_str ''fetch_stock_data'' [PyStr ''AAPL''] []))"

definition after_fetch :: world where
  "after_fetch =
     snd (wrapper 3600 ''fetch_stock_data'' (returning prices) (env_at 0 Written)
            [PyStr ''AAPL''] [] empty_world)"

text \<open>
  The same fetch with a time to live of ten seconds, where the entry is stamped at time 0
  and the file system stamps the file at time 1.
\<close>

definition slow_disk_env :: call_env where
  "slow_disk_env =
     \<lparr>time_memory = 0, time_file = 0, time_store = 0, exists_raises = None,
      file_write = Written, file_mtime = 1\<rparr>"

definition after_slow_write :: world where
  "after_slow_write =
     snd (wrapper 10 ''fetch_stock_data'' (returning prices) slow_disk_env
            [PyStr ''AAPL''] [] empty_world)"

text \<open>
  After the fetch and a restart, the file of the key is damaged; and the state after the
  fetch where the file could not be opened for writing, so that only the memory holds
  the entry.
\<close>

definition after_corruption :: world where
  "after_corruption =
     (restart after_fetch)\<lparr>cache_dir :=
        (cache_dir after_fetch)(aapl_key \<mapsto> \<lparr>content = Unreadable, mtime = 5\<rparr>)\<rparr>"

definition after_fetch_unwritten :: world where
  "after_fetch_unwritten =
     snd (wrapper 3600 ''fetch_stock_data'' (returning prices) (env_at 0 Open_failed)
            [PyStr ''AAPL''] [] empty_world)"

text \<open>
  A cache directory that may not be searched at time 10. And, after the fetch and a
  restart, a file of the key left by another writer: a pickled dictionary with the
  timestamp 5 and no \<open>'result'\<close>; then the state after a call at time 10 whose fetch
  fails.
\<close>

definition unsearchable_env :: call_env where
  "unsearchable_env = (env_at 10 Written)\<lparr>exists_raises := Some (PyException ''PermissionError'')\<rparr>"

definition after_foreign_write :: world where
  "after_foreign_write =
     (restart after_fetch)\<lparr>cache_dir :=
        (cache_dir after_fetch)(aapl_key \<mapsto>
           \<lparr>content = Pickled \<lparr>result = None, timestamp = 5, type_tag = None\<rparr>, mtime = 5\<rparr>)\<rparr>"

definition after_failed_refetch :: world where
  "after_failed_refetch =
     snd (wrapper 3600 ''fetch_stock_data'' (raising (PyException ''HTTP 500'')) (env_at 10 Written)
            [PyStr ''AAPL''] [] after_foreign_write)"

section \<open>Properties of the cache key\<close>

subsection \<open>Digests of four joined strings\<close>

lemma md5_f_AAPL: "md5_hexdigest (encode ''f_AAPL'') = ''e4818b282824887464de35235afb11ba''"
  by code_simp

lemma md5_f_MSFT: "md5_hexdigest (encode ''f_MSFT'') = ''830df64e6f80cd3a5464856f0f8c4309''"
  by code_simp

lemma md5_f_a_b: "md5_hexdigest (encode ''f_a_b'') = ''ce5cf4dfdb941f7aa489dbfb5259c3cf''"
  by code_simp

lemma md5_f_b_a: "md5_hexdigest (encode ''f_b_a'') = ''fce4ac2a9cf7f0f08dd7458d94ff7313''"
  by code_simp

subsection \<open>The hex digest and the encoding lose nothing\<close>

lemma hex_digit_inj: "m < 16 \<Longrightarrow> n < 16 \<Longrightarrow> hex_digit m = hex_digit n \<Longrightarrow> m = n"
  unfolding hex_digit_def
  by (subst (asm) nth_eq_iff_index_eq) simp_all

lemma hex_byte_inj:
  assumes h: "hex_byte a = hex_byte b"
  shows "a = b"
proof -
  have la: "unat a < 256" using unsigned_less [of a, where 'a = nat] by simp
  have lb: "unat b < 256" using unsigned_less [of b, where 'a = nat] by simp
  have da: "unat a div 16 < 16" using la by simp
  have db: "unat b div 16 < 16" using lb by simp
  from h have "hex_digit (unat a div 16) = hex_digit (unat b div 16)"
    and "hex_digit (unat a mod 16) = hex_digit (unat b mod 16)"
    by (simp_all add: hex_byte_def)
  then have "unat a div 16 = unat b div 16" "unat a mod 16 = unat b mod 16"
    using da db by (simp_all add: hex_digit_inj)
  moreover have "unat a = 16 * (unat a div 16) + unat a mod 16"
    and "unat b = 16 * (unat b div 16) + unat b mod 16" by simp_all
  ultimately have "unat a = unat b" by simp
  then show ?thesis by (simp add: word_unat_eq_iff)
qed

lemma hex_concat_inj: "concat (map hex_byte xs) = concat (map hex_byte ys) \<Longrightarrow> xs = ys"
proof (induction xs arbitrary: ys)
  case Nil
  then show ?case by (cases ys) (simp_all add: hex_byte_def)
next
  case (Cons x xs)
  show ?case
  proof (cases ys)
    case Nil
    with Cons.prems show ?thesis by (simp add: hex_byte_def)
  next
    case (Cons y ys')
    have two: "\<And>b. \<exists>p q. hex_byte b = [p, q]" by (simp add: hex_byte_def)
    obtain p q where x: "hex_byte x = [p, q]" using two by blast
    obtain p' q' where y: "hex_byte y = [p', q']" using two by blast
    from Cons.prems Cons x y
    have "hex_byte x = hex_byte y" "concat (map hex_byte xs) = concat (map hex_byte ys')"
      by simp_all
    with Cons.IH Cons show ?thesis by (simp add: hex_byte_inj)
  qed
qed

lemma encode_inj: "encode s = encode t \<Longrightarrow> s = t"
proof (induction s arbitrary: t)
  case Nil
  then show ?case by (simp add: encode_def)
next
  case (Cons c s)
  then obtain d t' where t: "t = d # t'" by (cases t) (auto simp: encode_def)
  from Cons.prems t have "(of_nat (of_char c) :: byte) = of_nat (of_char d)"
    and r: "encode s = encode t'"
    by (simp_all add: encode_def)
  then have "take_bit 8 (of_char c :: nat) = take_bit 8 (of_char d :: nat)"
    by (simp add: word_of_nat_eq_iff)
  then have "(of_char c :: nat) = of_char d"
    by (simp add: take_bit_nat_eq_self)
  with Cons.IH [OF r] t show ?case by simp
qed

subsection \<open>Keyword arguments in another order\<close>

lemma sort_keys_perm:
  assumes "mset kw' = mset kw"
  shows "sort (map fst kw') = sort (map fst kw)"
proof (rule properties_for_sort)
  have "mset (map fst kw) = mset (map fst kw')"
    unfolding mset_map using assms by simp
  then show "mset (sort (map fst kw)) = mset (map fst kw')"
    by (simp only: mset_sort)
  show "sorted (sort (map fst kw))" by (rule sorted_sort)
qed

lemma map_of_perm:
  assumes "distinct (map fst kw)" "mset kw' = mset kw"
  shows "map_of kw' = map_of kw"
proof -
  have h: "mset (map fst kw') = mset (map fst kw)"
    unfolding mset_map using assms(2) by simp
  have "distinct (map fst kw')"
    using mset_eq_imp_distinct_iff [OF h] assms(1) by blast
  moreover have "set kw' = set kw" using assms(2) by (rule mset_eq_setD)
  ultimately show ?thesis using assms(1) by (simp add: map_of_inject_set)
qed

lemma key_str_kwargs_perm:
  assumes "distinct (map fst kw)" "mset kw' = mset kw"
  shows "key_str n a kw' = key_str n a kw"
proof -
  have "kwarg_part kw' = kwarg_part kw"
    by (rule ext) (simp add: kwarg_part_def map_of_perm [OF assms])
  then show ?thesis
    by (simp only: key_str_def key_parts_def sort_keys_perm [OF assms(2)])
qed

lemma keys_perm:
  assumes "mset kw' = mset kw"
  shows "set (map fst kw') = set (map fst kw)"
proof -
  have "set kw' = set kw" using assms by (rule mset_eq_setD)
  then show ?thesis by simp
qed

subsection \<open>Claims about \<open>get_cache_key\<close>\<close>

text \<open>
  C3, as stated, fails. The claim says that any two distinct argument tuples get
  different keys with overwhelming probability. The key is the MD5 hex digest of the
  parts joined by \<open>"_"\<close>, and distinct tuples can have the same joined string: the single
  argument \<open>"a_b"\<close> and the two arguments \<open>"a"\<close>, \<open>"b"\<close> always share their key.
\<close>

theorem C3_separator_collision:
  "[PyStr ''a_b''] \<noteq> [PyStr ''a'', PyStr ''b'']
   \<and> get_cache_key ''f'' [PyStr ''a_b''] [] = get_cache_key ''f'' [PyStr ''a'', PyStr ''b''] []"
  by (simp add: get_cache_key_def key_str_def key_parts_def)

text \<open>
  C3, as amended: two calls have the same outcome of the key derivation exactly when
  both raise (each has a keyword named \<open>func_name\<close>) or neither raises and the MD5
  digests of their joined strings are equal (the hex rendering and the encoding are
  injective), so calls whose joined strings differ collide only where MD5 does; and the
  keys of \<open>("f", ["AAPL"], {})\<close> and \<open>("f", ["MSFT"], {})\<close> differ.
\<close>

theorem C3_keys_collide_exactly_where_digests_do:
  "(get_cache_key n a kw = get_cache_key n' a' kw')
     = (if ''func_name'' \<in> set (map fst kw) \<or> ''func_name'' \<in> set (map fst kw')
        then ''func_name'' \<in> set (map fst kw) \<and> ''func_name'' \<in> set (map fst kw')
        else md5_digest (encode (key_str n a kw)) = md5_digest (encode (key_str n' a' kw')))
   \<and> (encode (key_str n a kw) = encode (key_str n' a' kw'))
     = (key_str n a kw = key_str n' a' kw')
   \<and> get_cache_key ''f'' [PyStr ''AAPL''] [] \<noteq> get_cache_key ''f'' [PyStr ''MSFT''] []"
proof (intro conjI)
  have hex: "(md5_hexdigest x = md5_hexdigest y) = (md5_digest x = md5_digest y)" for x y
    unfolding md5_hexdigest_def by (rule iffI) (simp_all add: hex_concat_inj)
  show "(get_cache_key n a kw = get_cache_key n' a' kw')
     = (if ''func_name'' \<in> set (map fst kw) \<or> ''func_name'' \<in> set (map fst kw')
        then ''func_name'' \<in> set (map fst kw) \<and> ''func_name'' \<in> set (map fst kw')
        else md5_digest (encode (key_str n a kw)) = md5_digest (encode (key_str n' a' kw')))"
    by (simp add: get_cache_key_def hex)
  show "(encode (key_str n a kw) = encode (key_str n' a' kw'))
     = (key_str n a kw = key_str n' a' kw')"
    by (rule iffI) (simp_all add: encode_inj)
  have "key_str ''f'' [PyStr ''AAPL''] [] = ''f_AAPL''"
    and "key_str ''f'' [PyStr ''MSFT''] [] = ''f_MSFT''"
    by (simp_all add: key_str_def key_parts_def)
  then show "get_cache_key ''f'' [PyStr ''AAPL''] [] \<noteq> get_cache_key ''f'' [PyStr ''MSFT''] []"
    by (simp add: get_cache_key_def md5_f_AAPL md5_f_MSFT)
qed

text \<open>
  C4. The key does not depend on the order in which the keyword arguments are given
  (\<open>kw'\<close> is \<open>kw\<close> in another order; the names of a call are distinct), and it does
  depend on the order of the positional arguments: \<open>("a", "b")\<close> and \<open>("b", "a")\<close> get
  different keys. With a keyword named \<open>func_name\<close> both orders raise the same
  \<open>TypeError\<close>.
\<close>

theorem C4_keyword_order_free_positional_order_bound:
  assumes "distinct (map fst kw)" and "mset kw' = mset kw"
  shows "get_cache_key n a kw' = get_cache_key n a kw
   \<and> mset [PyStr ''b'', PyStr ''a''] = mset [PyStr ''a'', PyStr ''b'']
   \<and> get_cache_key ''f'' [PyStr ''b'', PyStr ''a''] []
       \<noteq> get_cache_key ''f'' [PyStr ''a'', PyStr ''b''] []"
proof (intro conjI)
  show "get_cache_key n a kw' = get_cache_key n a kw"
    by (simp only: get_cache_key_def key_str_kwargs_perm [OF assms] keys_perm [OF assms(2)])
  show "mset [PyStr ''b'', PyStr ''a''] = mset [PyStr ''a'', PyStr ''b'']"
    by simp
  have "key_str ''f'' [PyStr ''b'', PyStr ''a''] [] = ''f_b_a''"
    and "key_str ''f'' [PyStr ''a'', PyStr ''b''] [] = ''f_a_b''"
    by (simp_all add: key_str_def key_parts_def)
  then show "get_cache_key ''f'' [PyStr ''b'', PyStr ''a''] []
       \<noteq> get_cache_key ''f'' [PyStr ''a'', PyStr ''b''] []"
    by (simp add: get_cache_key_def md5_f_a_b md5_f_b_a)
qed

theorem C4_witness:
  "distinct (map fst [(''period'', PyStr ''1y''), (''interval'', PyStr ''1d'')])
   \<and> mset [(''interval'', PyStr ''1d''), (''period'', PyStr ''1y'')]
       = mset [(''period'', PyStr ''1y''), (''interval'', PyStr ''1d'')]
   \<and> get_cache_key ''fetch_stock_data'' [PyStr ''AAPL'']
         [(''interval'', PyStr ''1d''), (''period'', PyStr ''1y'')]
       = get_cache_key ''fetch_stock_data'' [PyStr ''AAPL'']
         [(''period'', PyStr ''1y''), (''interval'', PyStr ''1d'')]"
proof -
  have d: "distinct (map fst [(''period'', PyStr ''1y''), (''interval'', PyStr ''1d'')])"
    by simp
  have m: "mset [(''interval'', PyStr ''1d''), (''period'', PyStr ''1y'')]
       = mset [(''period'', PyStr ''1y''), (''interval'', PyStr ''1d'')]"
    by simp
  from C4_keyword_order_free_positional_order_bound [OF d m, of "''fetch_stock_data''" "[PyStr ''AAPL'']"]
  show ?thesis using d m by blast
qed

text \<open>
  C10, as stated, fails at the keyword name \<open>func_name\<close>: the call with the positional
  string \<open>"func_name=x"\<close> returns a key, the call with the keyword argument
  \<open>func_name="x"\<close> raises \<open>TypeError\<close>, so the two calls share no cache entry.
\<close>

theorem C10_keyword_named_func_name_raises:
  "get_cache_key ''f'' [PyStr (''func_name'' @ ''='' @ py_str (PyStr ''x''))] []
     = Inr (md5_hexdigest (encode ''f_func_name=x''))
   \<and> get_cache_key ''f'' [] [(''func_name'', PyStr ''x'')] = Inl (PyException ''TypeError'')
   \<and> get_cache_key ''f'' [PyStr (''func_name'' @ ''='' @ py_str (PyStr ''x''))] []
     \<noteq> get_cache_key ''f'' [] [(''func_name'', PyStr ''x'')]"
  by (simp add: get_cache_key_def key_str_def key_parts_def)

text \<open>
  C10, as amended. For every function name, every keyword name \<open>k\<close> other than
  \<open>func_name\<close> and every value, the call with the single positional string \<open>"k=v"\<close> and
  the call with the keyword argument \<open>k=v\<close> both return the digest of \<open>name_k=v\<close>: one
  key, one cache entry.
\<close>

theorem C10_positional_string_matches_keyword:
  assumes "k \<noteq> ''func_name''"
  shows "get_cache_key n [PyStr (k @ ''='' @ py_str v)] [] = get_cache_key n [] [(k, v)]
   \<and> get_cache_key n [] [(k, v)]
       = Inr (md5_hexdigest (encode (n @ ''_'' @ k @ ''='' @ py_str v)))"
  using assms by (auto simp: get_cache_key_def key_str_def key_parts_def kwarg_part_def)

theorem C10_witness:
  "''period'' \<noteq> ''func_name''
   \<and> get_cache_key ''fetch_stock_data'' [PyStr (''period'' @ ''='' @ py_str (PyStr ''1y''))] []
       = get_cache_key ''fetch_stock_data'' [] [(''period'', PyStr ''1y'')]
   \<and> get_cache_key ''fetch_stock_data'' [] [(''period'', PyStr ''1y'')]
       = Inr (md5_hexdigest (encode (''fetch_stock_data'' @ ''_'' @ ''period'' @ ''='' @ py_str (PyStr ''1y''))))"
proof -
  have n: "''period'' \<noteq> ''func_name''" by simp
  from C10_positional_string_matches_keyword [OF n, of "''fetch_stock_data''" "PyStr ''1y''"] n
  show ?thesis by blast
qed

section \<open>Properties of the wrapper\<close>

subsection \<open>The two lookups\<close>

lemma memory_lookup_Some_iff:
  "(memory_lookup expires now mem k = Some e)
     = (map_of mem k = Some e \<and> now - timestamp e < real_of_int expires)"
  by (auto simp: memory_lookup_def split: option.splits)

lemma file_lookup_Some_iff:
  "(file_lookup expires now dir k = Some e)
     = (\<exists>f. dir k = Some f \<and> content f = Pickled e \<and> now - timestamp e < real_of_int expires)"
  by (auto simp: file_lookup_def split: option.splits file_content.splits)

lemma memory_lookup_update:
  "memory_lookup expires now (AList.update k e mem) k
     = (if now - timestamp e < real_of_int expires then Some e else None)"
  by (simp add: memory_lookup_def update_conv')

subsection \<open>The ways through the wrapper\<close>

lemma wrapper_key_raises:
  "get_cache_key fn args kw = Inl x \<Longrightarrow> wrapper expires fn func env args kw s = (Inl x, s)"
  by (simp add: wrapper_def)

lemma wrapper_memory_hit:
  "get_cache_key fn args kw = Inr key
   \<Longrightarrow> memory_lookup expires (time_memory env) (memory_cache s) key = Some e
   \<Longrightarrow> wrapper expires fn func env args kw s = (subscript_result e, s)"
  by (simp add: wrapper_def)

lemma wrapper_exists_raises:
  "get_cache_key fn args kw = Inr key
   \<Longrightarrow> memory_lookup expires (time_memory env) (memory_cache s) key = None
   \<Longrightarrow> exists_raises env = Some x
   \<Longrightarrow> wrapper expires fn func env args kw s = (Inl x, s)"
  by (simp add: wrapper_def)

lemma wrapper_file_hit:
  "get_cache_key fn args kw = Inr key
   \<Longrightarrow> memory_lookup expires (time_memory env) (memory_cache s) key = None
   \<Longrightarrow> exists_raises env = None
   \<Longrightarrow> file_lookup expires (time_file env) (cache_dir s) key = Some e
   \<Longrightarrow> result e = Some v
   \<Longrightarrow> wrapper expires fn func env args kw s
        = (Inr v, s\<lparr>memory_cache := AList.update key e (memory_cache s)\<rparr>)"
  by (simp add: wrapper_def Let_def)

lemma wrapper_file_without_result:
  "get_cache_key fn args kw = Inr key
   \<Longrightarrow> memory_lookup expires (time_memory env) (memory_cache s) key = None
   \<Longrightarrow> exists_raises env = None
   \<Longrightarrow> file_lookup expires (time_file env) (cache_dir s) key = Some e
   \<Longrightarrow> result e = None
   \<Longrightarrow> wrapper expires fn func env args kw s
        = call_and_store func env key args kw
            (s\<lparr>memory_cache := AList.update key e (memory_cache s)\<rparr>)"
  by (simp add: wrapper_def Let_def)

lemma wrapper_miss:
  "get_cache_key fn args kw = Inr key
   \<Longrightarrow> memory_lookup expires (time_memory env) (memory_cache s) key = None
   \<Longrightarrow> exists_raises env = None
   \<Longrightarrow> file_lookup expires (time_file env) (cache_dir s) key = None
   \<Longrightarrow> wrapper expires fn func env args kw s = call_and_store func env key args kw s"
  by (simp add: wrapper_def)

lemma call_and_store_raises:
  "func args kw = Inl x
   \<Longrightarrow> call_and_store func env key args kw s = (Inl x, s\<lparr>func_calls := func_calls s + 1\<rparr>)"
  by (simp add: call_and_store_def)

lemma call_and_store_returns:
  "func args kw = Inr v
   \<Longrightarrow> call_and_store func env key args kw s
        = (Inr v,
           s\<lparr>memory_cache := AList.update key
                \<lparr>result = Some v, timestamp = time_store env, type_tag = None\<rparr> (memory_cache s),
             cache_dir := write_file env key
                \<lparr>result = Some v, timestamp = time_store env, type_tag = None\<rparr> (cache_dir s),
             func_calls := func_calls s + 1\<rparr>)"
  by (simp add: call_and_store_def Let_def)

lemma call_and_store_calls:
  "fst (call_and_store func env key args kw s) = func args kw
   \<and> func_calls (snd (call_and_store func env key args kw s)) = func_calls s + 1"
  by (cases "func args kw") (simp_all add: call_and_store_raises call_and_store_returns)

lemma wrapper_miss_calls:
  "get_cache_key fn args kw = Inr key
   \<Longrightarrow> memory_lookup expires (time_memory env) (memory_cache s) key = None
   \<Longrightarrow> exists_raises env = None
   \<Longrightarrow> file_lookup expires (time_file env) (cache_dir s) key = None
   \<Longrightarrow> fst (wrapper expires fn func env args kw s) = func args kw
       \<and> func_calls (snd (wrapper expires fn func env args kw s)) = func_calls s + 1"
  by (simp add: wrapper_miss call_and_store_calls)

text \<open>
  What reaches the caller as an exception: the \<open>TypeError\<close> of the key derivation, the
  \<open>KeyError\<close> of a fresh object in the memory that has no \<open>'result'\<close>, the exception of
  \<open>cache_file.exists()\<close>, or the exception of the wrapped function.
\<close>

lemma wrapper_raises_cases:
  assumes "fst (wrapper expires fn func env args kw s) = Inl x"
  shows "get_cache_key fn args kw = Inl x
     \<or> (\<exists>key e. get_cache_key fn args kw = Inr key
           \<and> memory_lookup expires (time_memory env) (memory_cache s) key = Some e
           \<and> result e = None \<and> x = PyException ''KeyError'')
     \<or> exists_raises env = Some x
     \<or> func args kw = Inl x"
  using assms
  by (auto simp: wrapper_def Let_def call_and_store_def subscript_result_def
      split: option.splits sum.splits)

subsection \<open>The scenarios, evaluated\<close>

lemma aapl_key_derives: "get_cache_key ''fetch_stock_data'' [PyStr ''AAPL''] [] = Inr aapl_key"
  by (simp add: get_cache_key_def aapl_key_def)

lemma pickled_prices:
  "pickled_entry \<lparr>result = Some prices, timestamp = t, type_tag = None\<rparr>
     = \<lparr>result = Some prices_as_dict, timestamp = t, type_tag = Some ''dataframe''\<rparr>"
  by (simp add: pickled_entry_def prices_def prices_as_dict_def to_dict_def py_dict_def)

lemma after_fetch_eq:
  "after_fetch =
     \<lparr>memory_cache = [(aapl_key, \<lparr>result = Some prices, timestamp = 0, type_tag = None\<rparr>)],
      cache_dir = Map.empty(aapl_key \<mapsto>
         \<lparr>content = Pickled \<lparr>result = Some prices_as_dict, timestamp = 0,
                               type_tag = Some ''dataframe''\<rparr>,
          mtime = 0\<rparr>),
      func_calls = 1\<rparr>"
  by (simp add: after_fetch_def wrapper_def aapl_key_derives memory_lookup_def file_lookup_def
      empty_world_def call_and_store_def returning_def env_at_def write_file_def pickled_prices
      Let_def)

lemma after_fetch_unwritten_eq:
  "after_fetch_unwritten =
     \<lparr>memory_cache = [(aapl_key, \<lparr>result = Some prices, timestamp = 0, type_tag = None\<rparr>)],
      cache_dir = Map.empty, func_calls = 1\<rparr>"
  by (simp add: after_fetch_unwritten_def wrapper_def aapl_key_derives memory_lookup_def
      file_lookup_def empty_world_def call_and_store_def returning_def env_at_def write_file_def
      Let_def)

lemma after_slow_write_eq:
  "after_slow_write =
     \<lparr>memory_cache = [(aapl_key, \<lparr>result = Some prices, timestamp = 0, type_tag = None\<rparr>)],
      cache_dir = Map.empty(aapl_key \<mapsto>
         \<lparr>content = Pickled \<lparr>result = Some prices_as_dict, timestamp = 0,
                               type_tag = Some ''dataframe''\<rparr>,
          mtime = 1\<rparr>),
      func_calls = 1\<rparr>"
  by (simp add: after_slow_write_def wrapper_def aapl_key_derives memory_lookup_def file_lookup_def
      empty_world_def call_and_store_def returning_def slow_disk_env_def write_file_def
      pickled_prices Let_def)

lemma after_corruption_eq:
  "after_corruption =
     \<lparr>memory_cache = [],
      cache_dir = Map.empty(aapl_key \<mapsto> \<lparr>content = Unreadable, mtime = 5\<rparr>),
      func_calls = 1\<rparr>"
  by (simp add: after_corruption_def restart_def after_fetch_eq)

lemma after_foreign_write_eq:
  "after_foreign_write =
     \<lparr>memory_cache = [],
      cache_dir = Map.empty(aapl_key \<mapsto>
         \<lparr>content = Pickled \<lparr>result = None, timestamp = 5, type_tag = None\<rparr>, mtime = 5\<rparr>),
      func_calls = 1\<rparr>"
  by (simp add: after_foreign_write_def restart_def after_fetch_eq)

lemma after_failed_refetch_eq:
  "after_failed_refetch =
     \<lparr>memory_cache = [(aapl_key, \<lparr>result = None, timestamp = 5, type_tag = None\<rparr>)],
      cache_dir = Map.empty(aapl_key \<mapsto>
         \<lparr>content = Pickled \<lparr>result = None, timestamp = 5, type_tag = None\<rparr>, mtime = 5\<rparr>),
      func_calls = 2\<rparr>"
  by (simp add: after_failed_refetch_def after_foreign_write_eq wrapper_def aapl_key_derives
      memory_lookup_def file_lookup_def call_and_store_def raising_def env_at_def Let_def)

subsection \<open>The keys of the memory cache stay distinct\<close>

text \<open>
  \<open>_memory_cache\<close> is a dictionary, so its keys are distinct; the model keeps them so.
\<close>

lemma wrapper_keeps_keys_distinct:
  "distinct (map fst (memory_cache s))
   \<Longrightarrow> distinct (map fst (memory_cache (snd (wrapper expires fn func env args kw s))))"
  by (auto simp: wrapper_def Let_def call_and_store_def distinct_update
      split: option.splits sum.splits)

subsection \<open>Claims about \<open>wrapper\<close>\<close>

text \<open>No entry that the wrapper pickles has a data frame as its result.\<close>

lemma pickled_entry_is_no_table: "result (pickled_entry e) \<noteq> Some (DataFrame index columns)"
proof (cases "result e")
  case None
  then show ?thesis by (simp add: pickled_entry_def)
next
  case (Some r)
  then show ?thesis by (cases r) (simp_all add: pickled_entry_def to_dict_def)
qed

text \<open>
  C1. A data frame fetched at time 0 is returned as a data frame by the call that fetches
  it, and written to the file as \<open>to_dict()\<close> with the tag \<open>'dataframe'\<close>. After a
  restart, the call at time 10 hits the file and returns that dictionary: the tag is
  never read, no table is rebuilt, and the dtypes are gone. The wrapped function is not
  called again.
\<close>

theorem C1_file_hit_returns_dict_for_dataframe:
  "fst (wrapper 3600 ''fetch_stock_data'' (returning prices) (env_at 0 Written)
          [PyStr ''AAPL''] [] empty_world) = Inr prices
   \<and> fst (wrapper 3600 ''fetch_stock_data'' (returning prices) (env_at 10 Written)
          [PyStr ''AAPL''] [] (restart after_fetch)) = Inr prices_as_dict
   \<and> prices_as_dict \<noteq> prices
   \<and> func_calls (snd (wrapper 3600 ''fetch_stock_data'' (returning prices) (env_at 10 Written)
          [PyStr ''AAPL''] [] (restart after_fetch))) = 1"
proof -
  have a: "fst (wrapper 3600 ''fetch_stock_data'' (returning prices) (env_at 0 Written)
          [PyStr ''AAPL''] [] empty_world) = Inr prices"
    by (simp add: wrapper_def aapl_key_derives memory_lookup_def file_lookup_def empty_world_def
        call_and_store_def returning_def env_at_def Let_def)
  have b: "wrapper 3600 ''fetch_stock_data'' (returning prices) (env_at 10 Written)
          [PyStr ''AAPL''] [] (restart after_fetch)
        = (Inr prices_as_dict, after_fetch\<lparr>memory_cache :=
             [(aapl_key, \<lparr>result = Some prices_as_dict, timestamp = 0,
                          type_tag = Some ''dataframe''\<rparr>)]\<rparr>)"
    by (simp add: after_fetch_eq restart_def wrapper_def aapl_key_derives memory_lookup_def
        file_lookup_def env_at_def Let_def)
  have c: "prices_as_dict \<noteq> prices" by (simp add: prices_as_dict_def prices_def)
  show ?thesis using a b c by (simp add: after_fetch_eq)
qed

text \<open>
  C2. The call is one whose key derives (\<open>get_cache_key\<close> returns \<open>key\<close>). If the
  memory holds an entry for the key that is fresh at the memory check, the wrapper returns
  its value and changes nothing, so the wrapped function is not called. Otherwise, if the
  file of the key is found and holds an entry that is fresh at the file check, the wrapper
  puts that entry into the memory, returns its value and does not call the wrapped
  function. And when a call misses both tiers and the wrapped function returns \<open>v\<close>, a
  second call whose memory check falls within \<open>expires\<close> seconds of the new entry's
  timestamp returns \<open>v\<close> without calling anything (whatever function \<open>func'\<close> it
  wraps): over the two calls the wrapped function ran exactly once. An entry has a value
  (\<open>result e = Some v\<close>); the file is found when \<open>cache_file.exists()\<close> returns.
\<close>

theorem C2_hits_skip_the_wrapped_function:
  "(get_cache_key fn args kw = Inr key
      \<and> map_of (memory_cache s) key = Some e \<and> result e = Some v
      \<and> time_memory env - timestamp e < real_of_int expires
    \<longrightarrow> wrapper expires fn func env args kw s = (Inr v, s))
   \<and> (get_cache_key fn args kw = Inr key
      \<and> memory_lookup expires (time_memory env) (memory_cache s) key = None
      \<and> exists_raises env = None
      \<and> cache_dir s key = Some f \<and> content f = Pickled e \<and> result e = Some v
      \<and> time_file env - timestamp e < real_of_int expires
    \<longrightarrow> wrapper expires fn func env args kw s
        = (Inr v, s\<lparr>memory_cache := AList.update key e (memory_cache s)\<rparr>))
   \<and> (get_cache_key fn args kw = Inr key
      \<and> memory_lookup expires (time_memory env) (memory_cache s) key = None
      \<and> exists_raises env = None
      \<and> file_lookup expires (time_file env) (cache_dir s) key = None
      \<and> func args kw = Inr v
      \<and> time_memory env' - time_store env < real_of_int expires
    \<longrightarrow> fst (wrapper expires fn func env args kw s) = Inr v
      \<and> wrapper expires fn func' env' args kw (snd (wrapper expires fn func env args kw s))
          = (Inr v, snd (wrapper expires fn func env args kw s))
      \<and> func_calls (snd (wrapper expires fn func env args kw s)) = func_calls s + 1)"
proof (intro conjI impI)
  assume h: "get_cache_key fn args kw = Inr key
      \<and> map_of (memory_cache s) key = Some e \<and> result e = Some v
      \<and> time_memory env - timestamp e < real_of_int expires"
  then have "memory_lookup expires (time_memory env) (memory_cache s) key = Some e"
    by (simp add: memory_lookup_Some_iff)
  with h have "wrapper expires fn func env args kw s = (subscript_result e, s)"
    by (simp add: wrapper_memory_hit)
  with h show "wrapper expires fn func env args kw s = (Inr v, s)"
    by (simp add: subscript_result_def)
next
  assume h: "get_cache_key fn args kw = Inr key
      \<and> memory_lookup expires (time_memory env) (memory_cache s) key = None
      \<and> exists_raises env = None
      \<and> cache_dir s key = Some f \<and> content f = Pickled e \<and> result e = Some v
      \<and> time_file env - timestamp e < real_of_int expires"
  then have "file_lookup expires (time_file env) (cache_dir s) key = Some e"
    by (simp add: file_lookup_Some_iff)
  with h show "wrapper expires fn func env args kw s
        = (Inr v, s\<lparr>memory_cache := AList.update key e (memory_cache s)\<rparr>)"
    by (simp add: wrapper_file_hit)
next
  assume h: "get_cache_key fn args kw = Inr key
      \<and> memory_lookup expires (time_memory env) (memory_cache s) key = None
      \<and> exists_raises env = None
      \<and> file_lookup expires (time_file env) (cache_dir s) key = None
      \<and> func args kw = Inr v
      \<and> time_memory env' - time_store env < real_of_int expires"
  let ?new = "\<lparr>result = Some v, timestamp = time_store env, type_tag = None\<rparr>"
  from h have w: "wrapper expires fn func env args kw s
        = (Inr v,
           s\<lparr>memory_cache := AList.update key ?new (memory_cache s),
             cache_dir := write_file env key ?new (cache_dir s),
             func_calls := func_calls s + 1\<rparr>)"
    by (simp add: wrapper_miss call_and_store_returns)
  show "fst (wrapper expires fn func env args kw s) = Inr v" by (simp add: w)
  show "func_calls (snd (wrapper expires fn func env args kw s)) = func_calls s + 1"
    by (simp add: w)
  have "memory_lookup expires (time_memory env')
          (memory_cache (snd (wrapper expires fn func env args kw s))) key = Some ?new"
    using h by (simp add: w memory_lookup_update)
  with h have "wrapper expires fn func' env' args kw (snd (wrapper expires fn func env args kw s))
          = (subscript_result ?new, snd (wrapper expires fn func env args kw s))"
    by (simp add: wrapper_memory_hit)
  then show "wrapper expires fn func' env' args kw (snd (wrapper expires fn func env args kw s))
          = (Inr v, snd (wrapper expires fn func env args kw s))"
    by (simp add: subscript_result_def)
qed

text \<open>
  The three cases at the price table: a memory hit, a file hit after a restart, and the
  first fetch followed by a call ten seconds later.
\<close>

theorem C2_witness:
  "wrapper 3600 ''fetch_stock_data'' (raising (PyException ''offline'')) (env_at 10 Written)
      [PyStr ''AAPL''] [] after_fetch = (Inr prices, after_fetch)
   \<and> wrapper 3600 ''fetch_stock_data'' (raising (PyException ''offline'')) (env_at 10 Written)
      [PyStr ''AAPL''] [] (restart after_fetch)
     = (Inr prices_as_dict,
        after_fetch\<lparr>memory_cache :=
          [(aapl_key, \<lparr>result = Some prices_as_dict, timestamp = 0,
                       type_tag = Some ''dataframe''\<rparr>)]\<rparr>)
   \<and> fst (wrapper 3600 ''fetch_stock_data'' (returning prices) (env_at 0 Written)
          [PyStr ''AAPL''] [] empty_world) = Inr prices
   \<and> func_calls after_fetch = 0 + 1"
proof -
  let ?e = "\<lparr>result = Some prices, timestamp = 0, type_tag = None\<rparr>"
  let ?d = "\<lparr>result = Some prices_as_dict, timestamp = 0, type_tag = Some ''dataframe''\<rparr>"
  let ?f = "\<lparr>content = Pickled ?d, mtime = 0\<rparr>"
  have a: "wrapper 3600 ''fetch_stock_data'' (raising (PyException ''offline'')) (env_at 10 Written)
      [PyStr ''AAPL''] [] after_fetch = (Inr prices, after_fetch)"
    using C2_hits_skip_the_wrapped_function [where s = after_fetch and fn = "''fetch_stock_data''"
        and args = "[PyStr ''AAPL'']" and kw = "[]" and key = aapl_key and e = ?e and v = prices
        and env = "env_at 10 Written" and expires = 3600
        and func = "raising (PyException ''offline'')"]
    by (simp add: after_fetch_eq aapl_key_derives env_at_def)
  have b: "wrapper 3600 ''fetch_stock_data'' (raising (PyException ''offline'')) (env_at 10 Written)
      [PyStr ''AAPL''] [] (restart after_fetch)
     = (Inr prices_as_dict, after_fetch\<lparr>memory_cache := [(aapl_key, ?d)]\<rparr>)"
    using C2_hits_skip_the_wrapped_function [where s = "restart after_fetch"
        and fn = "''fetch_stock_data''" and args = "[PyStr ''AAPL'']" and kw = "[]"
        and key = aapl_key and e = ?d and f = ?f and v = prices_as_dict
        and env = "env_at 10 Written" and expires = 3600
        and func = "raising (PyException ''offline'')"]
    by (simp add: after_fetch_eq restart_def aapl_key_derives env_at_def memory_lookup_def)
  have c: "fst (wrapper 3600 ''fetch_stock_data'' (returning prices) (env_at 0 Written)
          [PyStr ''AAPL''] [] empty_world) = Inr prices
     \<and> wrapper 3600 ''fetch_stock_data'' (raising (PyException ''offline'')) (env_at 10 Written)
          [PyStr ''AAPL''] [] after_fetch = (Inr prices, after_fetch)
     \<and> func_calls after_fetch = 0 + 1"
    using C2_hits_skip_the_wrapped_function [where s = empty_world
        and fn = "''fetch_stock_data''" and args = "[PyStr ''AAPL'']" and kw = "[]"
        and key = aapl_key and v = prices
        and env = "env_at 0 Written" and env' = "env_at 10 Written" and expires = 3600
        and func = "returning prices" and func' = "raising (PyException ''offline'')"]
    unfolding after_fetch_def
    by (simp add: aapl_key_derives empty_world_def memory_lookup_def file_lookup_def
        returning_def env_at_def)
  show ?thesis using a b c by blast
qed

text \<open>
  C5. An entry stamped \<open>T\<close> is served by a check at time \<open>t\<close> exactly when
  \<open>t - T < expires\<close>, that is \<open>t < T + expires\<close>, in both tiers. In the memory: before
  \<open>T + expires\<close> the wrapper returns the entry; from \<open>T + expires\<close> on the memory check
  fails, and with no file the wrapped function is called. On disk (nothing in memory):
  before \<open>T + expires\<close> the wrapper returns the entry and restores it to the memory; from
  \<open>T + expires\<close> on the file check fails and the wrapped function is called. Clock
  readings are real numbers here; the subtraction of two floating-point readings within
  a factor of two of each other is exact, so the comparison is the same. As in C2, the
  key derives, an entry has a value, and the file check is reached when
  \<open>cache_file.exists()\<close> returns.
\<close>

theorem C5_fresh_strictly_before_expiry:
  "(get_cache_key fn args kw = Inr key \<and> map_of (memory_cache s) key = Some e \<longrightarrow>
      (time_memory env < timestamp e + real_of_int expires \<and> result e = Some v
         \<longrightarrow> wrapper expires fn func env args kw s = (Inr v, s))
    \<and> (time_memory env \<ge> timestamp e + real_of_int expires
         \<longrightarrow> memory_lookup expires (time_memory env) (memory_cache s) key = None)
    \<and> (time_memory env \<ge> timestamp e + real_of_int expires
          \<and> exists_raises env = None \<and> cache_dir s key = None
         \<longrightarrow> func_calls (snd (wrapper expires fn func env args kw s)) = func_calls s + 1))
   \<and> (get_cache_key fn args kw = Inr key \<and> map_of (memory_cache s) key = None
        \<and> exists_raises env = None
        \<and> cache_dir s key = Some f \<and> content f = Pickled e \<longrightarrow>
      (time_file env < timestamp e + real_of_int expires \<and> result e = Some v
         \<longrightarrow> wrapper expires fn func env args kw s
             = (Inr v, s\<lparr>memory_cache := AList.update key e (memory_cache s)\<rparr>))
    \<and> (time_file env \<ge> timestamp e + real_of_int expires
         \<longrightarrow> file_lookup expires (time_file env) (cache_dir s) key = None
           \<and> func_calls (snd (wrapper expires fn func env args kw s)) = func_calls s + 1))"
proof (intro conjI impI)
  assume k: "get_cache_key fn args kw = Inr key \<and> map_of (memory_cache s) key = Some e"
    and t: "time_memory env < timestamp e + real_of_int expires \<and> result e = Some v"
  then have "memory_lookup expires (time_memory env) (memory_cache s) key = Some e"
    by (simp add: memory_lookup_Some_iff algebra_simps)
  with k have "wrapper expires fn func env args kw s = (subscript_result e, s)"
    by (simp add: wrapper_memory_hit)
  with t show "wrapper expires fn func env args kw s = (Inr v, s)"
    by (simp add: subscript_result_def)
next
  assume "get_cache_key fn args kw = Inr key \<and> map_of (memory_cache s) key = Some e"
    and "time_memory env \<ge> timestamp e + real_of_int expires"
  then show "memory_lookup expires (time_memory env) (memory_cache s) key = None"
    by (simp add: memory_lookup_def algebra_simps)
next
  assume k: "get_cache_key fn args kw = Inr key \<and> map_of (memory_cache s) key = Some e"
    and t: "time_memory env \<ge> timestamp e + real_of_int expires
          \<and> exists_raises env = None \<and> cache_dir s key = None"
  then have "memory_lookup expires (time_memory env) (memory_cache s) key = None"
    and "file_lookup expires (time_file env) (cache_dir s) key = None"
    by (simp_all add: memory_lookup_def file_lookup_def algebra_simps)
  with k t show "func_calls (snd (wrapper expires fn func env args kw s)) = func_calls s + 1"
    by (simp add: wrapper_miss_calls)
next
  assume k: "get_cache_key fn args kw = Inr key \<and> map_of (memory_cache s) key = None
        \<and> exists_raises env = None
        \<and> cache_dir s key = Some f \<and> content f = Pickled e"
    and t: "time_file env < timestamp e + real_of_int expires \<and> result e = Some v"
  then have "memory_lookup expires (time_memory env) (memory_cache s) key = None"
    and "file_lookup expires (time_file env) (cache_dir s) key = Some e"
    by (simp_all add: memory_lookup_def file_lookup_def algebra_simps)
  with k t show "wrapper expires fn func env args kw s
             = (Inr v, s\<lparr>memory_cache := AList.update key e (memory_cache s)\<rparr>)"
    by (simp add: wrapper_file_hit)
next
  assume k: "get_cache_key fn args kw = Inr key \<and> map_of (memory_cache s) key = None
        \<and> exists_raises env = None
        \<and> cache_dir s key = Some f \<and> content f = Pickled e"
    and t: "time_file env \<ge> timestamp e + real_of_int expires"
  then have m: "memory_lookup expires (time_memory env) (memory_cache s) key = None"
    and f: "file_lookup expires (time_file env) (cache_dir s) key = None"
    by (simp_all add: memory_lookup_def file_lookup_def algebra_simps)
  show "file_lookup expires (time_file env) (cache_dir s) key = None" by (rule f)
  from k m f show "func_calls (snd (wrapper expires fn func env args kw s)) = func_calls s + 1"
    by (simp add: wrapper_miss_calls)
qed

text \<open>
  An entry stamped 0 with \<open>expires = 3600\<close>: served at 3599, not at 3600, from the
  memory (no file was written) and from the file (after a restart).
\<close>

theorem C5_witness:
  "wrapper 3600 ''fetch_stock_data'' (raising (PyException ''offline'')) (env_at 3599 Written)
      [PyStr ''AAPL''] [] after_fetch_unwritten = (Inr prices, after_fetch_unwritten)
   \<and> memory_lookup 3600 3600 (memory_cache after_fetch_unwritten) aapl_key = None
   \<and> func_calls (snd (wrapper 3600 ''fetch_stock_data'' (raising (PyException ''offline''))
        (env_at 3600 Written) [PyStr ''AAPL''] [] after_fetch_unwritten))
      = func_calls after_fetch_unwritten + 1
   \<and> fst (wrapper 3600 ''fetch_stock_data'' (raising (PyException ''offline''))
        (env_at 3599 Written) [PyStr ''AAPL''] [] (restart after_fetch)) = Inr prices_as_dict
   \<and> file_lookup 3600 3600 (cache_dir (restart after_fetch)) aapl_key = None
   \<and> func_calls (snd (wrapper 3600 ''fetch_stock_data'' (raising (PyException ''offline''))
        (env_at 3600 Written) [PyStr ''AAPL''] [] (restart after_fetch)))
      = func_calls (restart after_fetch) + 1"
proof -
  let ?e = "\<lparr>result = Some prices, timestamp = 0, type_tag = None\<rparr>"
  let ?d = "\<lparr>result = Some prices_as_dict, timestamp = 0, type_tag = Some ''dataframe''\<rparr>"
  let ?f = "\<lparr>content = Pickled ?d, mtime = 0\<rparr>"
  have a: "wrapper 3600 ''fetch_stock_data'' (raising (PyException ''offline'')) (env_at 3599 Written)
      [PyStr ''AAPL''] [] after_fetch_unwritten = (Inr prices, after_fetch_unwritten)"
    using C5_fresh_strictly_before_expiry [where s = after_fetch_unwritten
        and fn = "''fetch_stock_data''" and args = "[PyStr ''AAPL'']" and kw = "[]"
        and key = aapl_key and e = ?e and v = prices and env = "env_at 3599 Written"
        and expires = 3600 and func = "raising (PyException ''offline'')"]
    by (simp add: after_fetch_unwritten_eq aapl_key_derives env_at_def)
  have b: "memory_lookup 3600 3600 (memory_cache after_fetch_unwritten) aapl_key = None
   \<and> func_calls (snd (wrapper 3600 ''fetch_stock_data'' (raising (PyException ''offline''))
        (env_at 3600 Written) [PyStr ''AAPL''] [] after_fetch_unwritten))
      = func_calls after_fetch_unwritten + 1"
    using C5_fresh_strictly_before_expiry [where s = after_fetch_unwritten
        and fn = "''fetch_stock_data''" and args = "[PyStr ''AAPL'']" and kw = "[]"
        and key = aapl_key and e = ?e and env = "env_at 3600 Written"
        and expires = 3600 and func = "raising (PyException ''offline'')"]
    by (simp add: after_fetch_unwritten_eq aapl_key_derives env_at_def)
  have c: "fst (wrapper 3600 ''fetch_stock_data'' (raising (PyException ''offline''))
        (env_at 3599 Written) [PyStr ''AAPL''] [] (restart after_fetch)) = Inr prices_as_dict"
    using C5_fresh_strictly_before_expiry [where s = "restart after_fetch"
        and fn = "''fetch_stock_data''" and args = "[PyStr ''AAPL'']" and kw = "[]"
        and key = aapl_key and e = ?d and f = ?f and v = prices_as_dict
        and env = "env_at 3599 Written"
        and expires = 3600 and func = "raising (PyException ''offline'')"]
    by (simp add: after_fetch_eq restart_def aapl_key_derives env_at_def)
  have d: "file_lookup 3600 3600 (cache_dir (restart after_fetch)) aapl_key = None
   \<and> func_calls (snd (wrapper 3600 ''fetch_stock_data'' (raising (PyException ''offline''))
        (env_at 3600 Written) [PyStr ''AAPL''] [] (restart after_fetch)))
      = func_calls (restart after_fetch) + 1"
    using C5_fresh_strictly_before_expiry [where s = "restart after_fetch"
        and fn = "''fetch_stock_data''" and args = "[PyStr ''AAPL'']" and kw = "[]"
        and key = aapl_key and e = ?d and f = ?f
        and env = "env_at 3600 Written"
        and expires = 3600 and func = "raising (PyException ''offline'')"]
    by (simp add: after_fetch_eq restart_def aapl_key_derives env_at_def)
  show ?thesis using a b c d by blast
qed


text \<open>
  Where the file is absent, unreadable or stale (and the key derives, the memory has no
  fresh entry and \<open>cache_file.exists()\<close> returns), a failing fetch does leave both tiers
  as they were.
\<close>

lemma failed_fetch_after_plain_miss_writes_nothing:
  assumes "get_cache_key fn args kw = Inr key"
    and "memory_lookup expires (time_memory env) (memory_cache s) key = None"
    and "exists_raises env = None"
    and "file_lookup expires (time_file env) (cache_dir s) key = None"
    and "func args kw = Inl x"
  shows "fst (wrapper expires fn func env args kw s) = Inl x
   \<and> memory_cache (snd (wrapper expires fn func env args kw s)) = memory_cache s
   \<and> cache_dir (snd (wrapper expires fn func env args kw s)) = cache_dir s"
  using assms by (simp add: wrapper_miss call_and_store_raises)

text \<open>
  C7 fails on two paths that lie outside the \<open>try\<close> blocks. With a cache directory
  that may not be searched, \<open>cache_file.exists()\<close> (line 83) raises \<open>PermissionError\<close>,
  and the caller gets it instead of the table the fetch would have returned. And after
  the failed call of C6, the object without \<open>'result'\<close> is in the memory: the call at
  time 20 finds it fresh and \<open>return cache_entry['result']\<close> (line 79) raises
  \<open>KeyError\<close> to the caller. In both calls the wrapped function is not called and the
  state stays as it was.
\<close>

theorem C7_existence_check_and_stored_object_raise:
  "returning prices [PyStr ''AAPL''] [] = Inr prices
   \<and> wrapper 3600 ''fetch_stock_data'' (returning prices) unsearchable_env
        [PyStr ''AAPL''] [] empty_world
       = (Inl (PyException ''PermissionError''), empty_world)
   \<and> wrapper 3600 ''fetch_stock_data'' (returning prices) (env_at 20 Written)
        [PyStr ''AAPL''] [] after_failed_refetch
       = (Inl (PyException ''KeyError''), after_failed_refetch)"
  by (simp add: returning_def unsearchable_env_def env_at_def empty_world_def
      after_failed_refetch_eq wrapper_def aapl_key_derives memory_lookup_def
      subscript_result_def)

text \<open>
  What the two \<open>try\<close> blocks do achieve, for a call whose key derives and whose
  existence check returns: an unreadable file is a miss, the wrapped function is called
  and its result returned, and a write that succeeds replaces the file by the new entry;
  with a write that fails the result is returned all the same and the memory holds the
  new entry.
\<close>

lemma unreadable_file_and_failed_write_are_swallowed:
  "(get_cache_key fn args kw = Inr key
        \<and> memory_lookup expires (time_memory env) (memory_cache s) key = None
        \<and> exists_raises env = None
        \<and> cache_dir s key = Some f \<and> content f = Unreadable
        \<and> func args kw = Inr v
      \<longrightarrow> fst (wrapper expires fn func env args kw s) = Inr v
        \<and> func_calls (snd (wrapper expires fn func env args kw s)) = func_calls s + 1
        \<and> (file_write env = Written \<longrightarrow>
             cache_dir (snd (wrapper expires fn func env args kw s)) key
               = Some \<lparr>content = Pickled (pickled_entry
                          \<lparr>result = Some v, timestamp = time_store env, type_tag = None\<rparr>),
                        mtime = file_mtime env\<rparr>))
   \<and> (get_cache_key fn args kw = Inr key
        \<and> memory_lookup expires (time_memory env) (memory_cache s) key = None
        \<and> exists_raises env = None
        \<and> file_lookup expires (time_file env) (cache_dir s) key = None
        \<and> func args kw = Inr v \<and> file_write env \<noteq> Written
      \<longrightarrow> fst (wrapper expires fn func env args kw s) = Inr v
        \<and> map_of (memory_cache (snd (wrapper expires fn func env args kw s))) key
            = Some \<lparr>result = Some v, timestamp = time_store env, type_tag = None\<rparr>)"
proof (intro conjI impI)
  assume h: "get_cache_key fn args kw = Inr key
        \<and> memory_lookup expires (time_memory env) (memory_cache s) key = None
        \<and> exists_raises env = None
        \<and> cache_dir s key = Some f \<and> content f = Unreadable
        \<and> func args kw = Inr v"
  then have fl: "file_lookup expires (time_file env) (cache_dir s) key = None"
    by (simp add: file_lookup_def)
  let ?new = "\<lparr>result = Some v, timestamp = time_store env, type_tag = None\<rparr>"
  have w: "wrapper expires fn func env args kw s
        = (Inr v,
           s\<lparr>memory_cache := AList.update key ?new (memory_cache s),
             cache_dir := write_file env key ?new (cache_dir s),
             func_calls := func_calls s + 1\<rparr>)"
    using h fl by (simp add: wrapper_miss call_and_store_returns)
  show "fst (wrapper expires fn func env args kw s) = Inr v" by (simp add: w)
  show "func_calls (snd (wrapper expires fn func env args kw s)) = func_calls s + 1"
    by (simp add: w)
  assume "file_write env = Written"
  then show "cache_dir (snd (wrapper expires fn func env args kw s)) key
               = Some \<lparr>content = Pickled (pickled_entry ?new), mtime = file_mtime env\<rparr>"
    by (simp add: w write_file_def)
next
  assume h: "get_cache_key fn args kw = Inr key
        \<and> memory_lookup expires (time_memory env) (memory_cache s) key = None
        \<and> exists_raises env = None
        \<and> file_lookup expires (time_file env) (cache_dir s) key = None
        \<and> func args kw = Inr v \<and> file_write env \<noteq> Written"
  let ?new = "\<lparr>result = Some v, timestamp = time_store env, type_tag = None\<rparr>"
  have w: "wrapper expires fn func env args kw s
        = (Inr v,
           s\<lparr>memory_cache := AList.update key ?new (memory_cache s),
             cache_dir := write_file env key ?new (cache_dir s),
             func_calls := func_calls s + 1\<rparr>)"
    using h by (simp add: wrapper_miss call_and_store_returns)
  show "fst (wrapper expires fn func env args kw s) = Inr v" by (simp add: w)
  show "map_of (memory_cache (snd (wrapper expires fn func env args kw s))) key = Some ?new"
    by (simp add: w update_conv')
qed

section \<open>Properties of the housekeeping functions\<close>

subsection \<open>What the sweep leaves in the memory\<close>

text \<open>
  Popping the collected keys one by one leaves the entries whose key was not collected;
  with distinct keys these are the entries that are still valid.
\<close>

lemma delete_filter: "AList.delete k al = filter (\<lambda>p. fst p \<noteq> k) al"
  by (induction al) auto

lemma fold_delete_filter:
  "fold AList.delete ks al = filter (\<lambda>p. fst p \<notin> set ks) al"
proof (induction ks arbitrary: al)
  case Nil
  show ?case by simp
next
  case (Cons k ks)
  have "fold AList.delete (k # ks) al = fold AList.delete ks (AList.delete k al)"
    by simp
  also have "\<dots> = filter (\<lambda>p. fst p \<notin> set ks) (filter (\<lambda>p. fst p \<noteq> k) al)"
    by (simp only: Cons.IH delete_filter)
  also have "\<dots> = filter (\<lambda>p. fst p \<notin> set (k # ks)) al"
    by (auto intro: filter_cong)
  finally show ?case .
qed

lemma stale_key_iff:
  assumes "distinct (map fst mem)" and "(k, e) \<in> set mem"
  shows "(k \<in> set (keys_to_remove expires now mem))
     = (now - timestamp e \<ge> real_of_int expires)"
proof -
  have u: "\<And>e'. (k, e') \<in> set mem \<Longrightarrow> e' = e"
    using eq_key_imp_eq_value [OF assms(1) _ assms(2)] by blast
  show ?thesis
  proof
    assume "k \<in> set (keys_to_remove expires now mem)"
    then obtain e' where "(k, e') \<in> set mem" "now - timestamp e' \<ge> real_of_int expires"
      by (auto simp: keys_to_remove_def)
    with u show "now - timestamp e \<ge> real_of_int expires" by blast
  next
    assume "now - timestamp e \<ge> real_of_int expires"
    with assms(2) have "(k, e) \<in> set (filter (\<lambda>(key, entry). now - timestamp entry \<ge> real_of_int expires) mem)"
      by simp
    then have "fst (k, e) \<in> fst ` set (filter (\<lambda>(key, entry). now - timestamp entry \<ge> real_of_int expires) mem)"
      by (rule imageI)
    then show "k \<in> set (keys_to_remove expires now mem)"
      by (simp add: keys_to_remove_def)
  qed
qed

lemma sweep_memory:
  assumes "distinct (map fst mem)"
  shows "fold AList.delete (keys_to_remove expires now mem) mem
     = filter (\<lambda>(key, entry). now - timestamp entry < real_of_int expires) mem"
  unfolding fold_delete_filter
  by (rule filter_cong [OF refl]) (auto simp: stale_key_iff [OF assms])

lemma clear_expired_keeps_keys_distinct:
  "distinct (map fst (memory_cache s))
   \<Longrightarrow> distinct (map fst (memory_cache (clear_expired_cache expires now rf s)))"
  by (simp add: clear_expired_cache_def fold_delete_filter distinct_map_filter)

subsection \<open>Claims about \<open>clear_expired_cache\<close> and \<open>clear_cache\<close>\<close>

text \<open>
  C8, as stated, fails on disk. The claim says the sweep removes from both tiers exactly
  the entries with \<open>now - created_at \<ge> ttl\<close>. The entry below was stamped at time 0 and
  its file was written at time 1; swept at time 10 with \<open>ttl = 10\<close> (no removal fails),
  the file stays, although its entry is ten seconds old and the wrapper treats it as
  stale.
\<close>

theorem C8_stale_file_survives_sweep:
  "cache_dir (clear_expired_cache 10 10 never_fails after_slow_write) aapl_key
     = Some \<lparr>content = Pickled \<lparr>result = Some prices_as_dict, timestamp = 0,
                                  type_tag = Some ''dataframe''\<rparr>,
             mtime = 1\<rparr>
   \<and> (10 :: real) - timestamp \<lparr>result = Some prices_as_dict, timestamp = 0,
                                 type_tag = Some ''dataframe''\<rparr> \<ge> real_of_int 10
   \<and> file_lookup 10 10 (cache_dir (clear_expired_cache 10 10 never_fails after_slow_write))
        aapl_key = None"
  by (simp add: clear_expired_cache_def after_slow_write_eq never_fails_def file_lookup_def)

text \<open>
  C8, as amended. With the keys of the memory distinct, the sweep keeps in the memory
  exactly the entries with \<open>now - timestamp < expires\<close>, in their order; it removes a
  file exactly when \<open>now - mtime \<ge> expires\<close> (the file's modification time, not the
  entry's timestamp) and handling the file does not raise, and leaves every other file
  as it is; the number of keys it logs is the number of entries removed from the memory.
  It returns nothing and calls no wrapped function.
\<close>

theorem C8_sweep_by_timestamp_in_memory_by_mtime_on_disk:
  assumes "distinct (map fst (memory_cache s))"
  shows "memory_cache (clear_expired_cache expires now rf s)
       = filter (\<lambda>(key, entry). now - timestamp entry < real_of_int expires) (memory_cache s)
   \<and> cache_dir (clear_expired_cache expires now rf s) k
       = (case cache_dir s k of
            None \<Rightarrow> None
          | Some f \<Rightarrow> if now - mtime f \<ge> real_of_int expires \<and> \<not> rf k then None else Some f)
   \<and> length (keys_to_remove expires now (memory_cache s))
       + length (memory_cache (clear_expired_cache expires now rf s))
       = length (memory_cache s)
   \<and> func_calls (clear_expired_cache expires now rf s) = func_calls s"
proof (intro conjI)
  show m: "memory_cache (clear_expired_cache expires now rf s)
       = filter (\<lambda>(key, entry). now - timestamp entry < real_of_int expires) (memory_cache s)"
    by (simp add: clear_expired_cache_def sweep_memory [OF assms])
  show "cache_dir (clear_expired_cache expires now rf s) k
       = (case cache_dir s k of
            None \<Rightarrow> None
          | Some f \<Rightarrow> if now - mtime f \<ge> real_of_int expires \<and> \<not> rf k then None else Some f)"
    by (simp add: clear_expired_cache_def)
  let ?stale = "\<lambda>(key, entry). now - timestamp entry \<ge> real_of_int expires"
  have "length (filter ?stale (memory_cache s))
      + length (filter (\<lambda>p. \<not> ?stale p) (memory_cache s)) = length (memory_cache s)"
    by (rule sum_length_filter_compl)
  moreover have "filter (\<lambda>(key, entry). now - timestamp entry < real_of_int expires) (memory_cache s)
      = filter (\<lambda>p. \<not> ?stale p) (memory_cache s)"
    by (rule filter_cong) auto
  ultimately show "length (keys_to_remove expires now (memory_cache s))
       + length (memory_cache (clear_expired_cache expires now rf s))
       = length (memory_cache s)"
    by (simp add: m keys_to_remove_def)
  show "func_calls (clear_expired_cache expires now rf s) = func_calls s"
    by (simp add: clear_expired_cache_def)
qed

text \<open>
  The sweep on the state above: at time 10 the memory entry goes, at time 9 it stays; at
  time 11 the file goes, unless its removal fails.
\<close>

theorem C8_witness:
  "distinct (map fst (memory_cache after_slow_write))
   \<and> memory_cache (clear_expired_cache 10 10 never_fails after_slow_write) = []
   \<and> memory_cache (clear_expired_cache 10 9 never_fails after_slow_write)
       = memory_cache after_slow_write
   \<and> cache_dir (clear_expired_cache 10 11 never_fails after_slow_write) aapl_key = None
   \<and> cache_dir (clear_expired_cache 10 11 always_fails after_slow_write) aapl_key
       = cache_dir after_slow_write aapl_key
   \<and> length (keys_to_remove 10 10 (memory_cache after_slow_write)) = 1"
proof -
  have d: "distinct (map fst (memory_cache after_slow_write))"
    by (simp add: after_slow_write_eq)
  note t10 = C8_sweep_by_timestamp_in_memory_by_mtime_on_disk [OF d, of 10 10 never_fails aapl_key]
  note t9 = C8_sweep_by_timestamp_in_memory_by_mtime_on_disk [OF d, of 10 9 never_fails aapl_key]
  note t11 = C8_sweep_by_timestamp_in_memory_by_mtime_on_disk [OF d, of 10 11 never_fails aapl_key]
  note t11f = C8_sweep_by_timestamp_in_memory_by_mtime_on_disk [OF d, of 10 11 always_fails aapl_key]
  have a: "memory_cache (clear_expired_cache 10 10 never_fails after_slow_write) = []"
    unfolding conjunct1 [OF t10] by (simp add: after_slow_write_eq)
  have b: "memory_cache (clear_expired_cache 10 9 never_fails after_slow_write)
       = memory_cache after_slow_write"
    unfolding conjunct1 [OF t9] by (simp add: after_slow_write_eq)
  have c: "cache_dir (clear_expired_cache 10 11 never_fails after_slow_write) aapl_key = None"
    unfolding conjunct1 [OF conjunct2 [OF t11]]
    by (simp add: after_slow_write_eq never_fails_def)
  have e: "cache_dir (clear_expired_cache 10 11 always_fails after_slow_write) aapl_key
       = cache_dir after_slow_write aapl_key"
    unfolding conjunct1 [OF conjunct2 [OF t11f]]
    by (simp add: after_slow_write_eq always_fails_def)
  have f: "length (keys_to_remove 10 10 (memory_cache after_slow_write)) = 1"
    using conjunct1 [OF conjunct2 [OF conjunct2 [OF t10]]] unfolding a
    by (simp add: after_slow_write_eq)
  show ?thesis using d a b c e f by blast
qed

text \<open>
  C9, as stated, fails where a file cannot be removed. \<open>clear_cache\<close> logs the
  exception of \<open>os.remove\<close> and goes on, so the file stays; the next call within the
  time to live hits it and does not call the wrapped function.
\<close>

theorem C9_undeletable_file_still_hits:
  "cache_dir (clear_cache always_fails after_fetch) aapl_key
     = Some \<lparr>content = Pickled \<lparr>result = Some prices_as_dict, timestamp = 0,
                                  type_tag = Some ''dataframe''\<rparr>,
             mtime = 0\<rparr>
   \<and> fst (wrapper 3600 ''fetch_stock_data'' (raising (PyException ''offline''))
        (env_at 10 Written) [PyStr ''AAPL''] [] (clear_cache always_fails after_fetch))
       = Inr prices_as_dict
   \<and> func_calls (snd (wrapper 3600 ''fetch_stock_data'' (raising (PyException ''offline''))
        (env_at 10 Written) [PyStr ''AAPL''] [] (clear_cache always_fails after_fetch)))
       = func_calls after_fetch"
  by (simp add: clear_cache_def always_fails_def after_fetch_eq wrapper_def aapl_key_derives
      memory_lookup_def file_lookup_def env_at_def Let_def)

text \<open>
  C9, as amended. \<open>clear_cache\<close> empties the memory and removes every file whose
  removal does not fail (the others stay as they are). When the file of a call's key
  could be removed, or did not exist, the next call is a miss whatever the entries' age
  was: the wrapped function is called and its outcome is the call's outcome. The next
  call is one whose key derives and whose \<open>cache_file.exists()\<close> returns.
\<close>

theorem C9_clear_removes_memory_and_deletable_files:
  "memory_cache (clear_cache rf s) = []
   \<and> (\<not> rf k \<longrightarrow> cache_dir (clear_cache rf s) k = None)
   \<and> (rf k \<longrightarrow> cache_dir (clear_cache rf s) k = cache_dir s k)
   \<and> (get_cache_key fn args kw = Inr key \<and> \<not> rf key \<and> exists_raises env = None \<longrightarrow>
        fst (wrapper expires fn func env args kw (clear_cache rf s)) = func args kw
        \<and> func_calls (snd (wrapper expires fn func env args kw (clear_cache rf s)))
            = func_calls s + 1)"
proof (intro conjI impI)
  show "memory_cache (clear_cache rf s) = []" by (simp add: clear_cache_def)
  show "\<not> rf k \<Longrightarrow> cache_dir (clear_cache rf s) k = None" by (simp add: clear_cache_def)
  show "rf k \<Longrightarrow> cache_dir (clear_cache rf s) k = cache_dir s k" by (simp add: clear_cache_def)
  assume n: "get_cache_key fn args kw = Inr key \<and> \<not> rf key \<and> exists_raises env = None"
  have m: "memory_lookup expires (time_memory env) (memory_cache (clear_cache rf s)) key = None"
    by (simp add: memory_lookup_def clear_cache_def)
  have f: "file_lookup expires (time_file env) (cache_dir (clear_cache rf s)) key = None"
    using n by (simp add: file_lookup_def clear_cache_def)
  have c: "func_calls (clear_cache rf s) = func_calls s" by (simp add: clear_cache_def)
  have w: "wrapper expires fn func env args kw (clear_cache rf s)
      = call_and_store func env key args kw (clear_cache rf s)"
    using n m f by (simp add: wrapper_miss)
  show "fst (wrapper expires fn func env args kw (clear_cache rf s)) = func args kw"
    by (simp add: w call_and_store_calls)
  show "func_calls (snd (wrapper expires fn func env args kw (clear_cache rf s)))
            = func_calls s + 1"
    by (simp add: w call_and_store_calls c)
qed

text \<open>
  Clearing after the fetch of the price table, on a file system where removal works
  and on one where it fails.
\<close>

theorem C9_witness:
  "memory_cache (clear_cache never_fails after_fetch) = []
   \<and> \<not> never_fails aapl_key
   \<and> cache_dir (clear_cache never_fails after_fetch) aapl_key = None
   \<and> always_fails aapl_key
   \<and> cache_dir (clear_cache always_fails after_fetch) aapl_key = cache_dir after_fetch aapl_key
   \<and> fst (wrapper 3600 ''fetch_stock_data'' (returning prices) (env_at 10 Written)
        [PyStr ''AAPL''] [] (clear_cache never_fails after_fetch)) = Inr prices
   \<and> func_calls (snd (wrapper 3600 ''fetch_stock_data'' (returning prices) (env_at 10 Written)
        [PyStr ''AAPL''] [] (clear_cache never_fails after_fetch))) = func_calls after_fetch + 1"
proof -
  have n: "\<not> never_fails aapl_key" by (simp add: never_fails_def)
  have a: "always_fails aapl_key" by (simp add: always_fails_def)
  have e: "exists_raises (env_at 10 Written) = None" by (simp add: env_at_def)
  note t = C9_clear_removes_memory_and_deletable_files [where rf = never_fails
      and s = after_fetch and k = aapl_key and key = aapl_key
      and fn = "''fetch_stock_data''" and args = "[PyStr ''AAPL'']" and kw = "[]"
      and func = "returning prices" and env = "env_at 10 Written" and expires = 3600]
  note u = C9_clear_removes_memory_and_deletable_files [where rf = always_fails
      and s = after_fetch and k = aapl_key]
  have r: "returning prices [PyStr ''AAPL''] [] = Inr prices" by (simp add: returning_def)
  show ?thesis using n a e t u r by (simp add: aapl_key_derives)
qed

end
